theory Spec2Isabelle
  imports
    Complex_Main
    "HOL-Library.Char_ord"
    "HOL-Library.List_Lexorder"
    "HOL-Library.Product_Lexorder"
    "HOL-Library.Sublist"
begin

text \<open>
  A shallow embedding of \<^verbatim>\<open>automated.py\<close>: the proxy rotation, the fingerprint
  generator, the honeypot scan, the typing primitive, the session restart, the response
  listener, the slot scan, the booking of a slot and the monitoring cycle.

  What the browser, the clock and the random generator answer is data of the model:
  clock readings and random draws are arguments, a page is a value that says what each
  query of the source finds on it, and an exception is a value of \<open>py_error\<close>. Python
  strings are lists of characters with code points below 256.
\<close>

section \<open>Exceptions\<close>

text \<open>
  \<open>PlaywrightError\<close> stands for whatever a page operation raises (a timeout of
  \<open>wait_for_selector\<close>, a closed target).
\<close>

datatype py_error = IndexError | ZeroDivisionError | ValueError | AttributeError | PlaywrightError

section \<open>Strings\<close>

text \<open>\<open>str(i)\<close> on an integer, as the f-strings of the source use it.\<close>

fun str_nat :: "nat \<Rightarrow> string" where
  "str_nat n =
     (if n < 10 then [char_of (48 + n)] else str_nat (n div 10) @ [char_of (48 + n mod 10)])"

definition str_int :: "int \<Rightarrow> string" where
  "str_int i = (if i < 0 then CHR ''-'' # str_nat (nat (- i)) else str_nat (nat i))"

text \<open>\<open>u in t\<close> on strings: \<open>u\<close> occurs in \<open>t\<close> as a contiguous run.\<close>

fun starts_with :: "string \<Rightarrow> string \<Rightarrow> bool" where
  "starts_with [] t = True"
| "starts_with (a # u) [] = False"
| "starts_with (a # u) (b # t) = (a = b \<and> starts_with u t)"

fun contains :: "string \<Rightarrow> string \<Rightarrow> bool" where
  "contains u [] = (u = [])"
| "contains u (c # t) = (starts_with u (c # t) \<or> contains u t)"

text \<open>
  \<open>str.lower()\<close> on code points below 256: the capital letters A to Z and the capital
  letters of Latin-1 (192 to 222, without the multiplication sign 215) move up by 32.
\<close>

definition lower_char :: "char \<Rightarrow> char" where
  "lower_char c =
     (let n = (of_char c :: nat)
      in if (65 \<le> n \<and> n \<le> 90) \<or> (192 \<le> n \<and> n \<le> 222 \<and> n \<noteq> 215) then char_of (n + 32)
         else c)"

definition lower :: "string \<Rightarrow> string" where
  "lower s = map lower_char s"

text \<open>Lower case for the letters A to Z only, as a browser compares attribute values.\<close>

definition ascii_lower :: "string \<Rightarrow> string" where
  "ascii_lower s =
     map (\<lambda>c. let n = (of_char c :: nat) in if 65 \<le> n \<and> n \<le> 90 then char_of (n + 32) else c) s"

text \<open>\<open>s.split(sep)\<close> for a separator of one character.\<close>

fun split :: "char \<Rightarrow> string \<Rightarrow> string list" where
  "split sep [] = [[]]"
| "split sep (c # cs) =
     (if c = sep then [] # split sep cs
      else (case split sep cs of
              [] \<Rightarrow> [[c]]
            | w # ws \<Rightarrow> (c # w) # ws))"

text \<open>
  \<open>template.format(version=v)\<close>: every replacement field \<open>{version}\<close> of the template
  becomes \<open>v\<close>. The templates of the source hold no other brace.
\<close>

fun format_version :: "string \<Rightarrow> string \<Rightarrow> string" where
  "format_version v [] = []"
| "format_version v (c # cs) =
     (if starts_with ''{version}'' (c # cs) then v @ format_version v (drop 8 cs)
      else c # format_version v cs)"

section \<open>Random choices\<close>

text \<open>
  \<open>random.choice(seq)\<close> returns \<open>seq[k]\<close> for an index \<open>k\<close> below the length, drawn by
  the generator. The draw is a natural number, reduced modulo the length: every draw
  selects an element and every element is selected by some draw.
\<close>

definition choice :: "'a list \<Rightarrow> nat \<Rightarrow> 'a" where
  "choice seq k = seq ! (k mod length seq)"

section \<open>Configuration (the dataclasses)\<close>

record ProxyConfig =
  host :: string
  port :: int
  username :: string
  password :: string
  rotation_interval :: int

record TestCenter =
  center_id :: string
  name :: string
  distance :: "real option"

text \<open>
  A \<open>datetime\<close> as \<open>strptime\<close> builds it from \<open>%Y-%m-%d\<close>: the time of day is midnight,
  so year, month and day are all that comparisons and \<open>weekday()\<close> read.
\<close>

record datetime =
  year :: int
  month :: int
  day :: int

record DateRange =
  start_date :: datetime
  end_date :: datetime

record TimePreference =
  earliest :: string
  latest :: string

record Credentials =
  license_number :: string
  application_reference :: string

record Config =
  credentials :: Credentials
  test_centers :: "TestCenter list"
  date_range :: DateRange
  time_preference :: TimePreference
  preferred_days :: "int set"
  proxies_cfg :: "ProxyConfig list"
  check_interval :: "int \<times> int"

section \<open>Proxy rotation (class ProxyRotator)\<close>

text \<open>
  \<open>time.time()\<close> is read from outside: a function that reads the clock takes the reading
  as an argument, one argument per call of \<open>time.time()\<close> it makes.
\<close>

record ProxyRotator =
  proxies :: "ProxyConfig list"
  current_index :: nat
  last_rotation_time :: real

definition init_rotator :: "real \<Rightarrow> ProxyConfig list \<Rightarrow> ProxyRotator" where
  "init_rotator now ps = \<lparr>proxies = ps, current_index = 0, last_rotation_time = now\<rparr>"

definition get_current_proxy :: "ProxyRotator \<Rightarrow> py_error + ProxyConfig" where
  "get_current_proxy r =
     (if current_index r < length (proxies r) then Inr (proxies r ! current_index r)
      else Inl IndexError)"

definition rotate :: "real \<Rightarrow> ProxyRotator \<Rightarrow> py_error + (ProxyConfig \<times> ProxyRotator)" where
  "rotate now r =
     (if length (proxies r) = 0 then Inl ZeroDivisionError
      else
        let r' = r\<lparr>current_index := (current_index r + 1) mod length (proxies r),
                   last_rotation_time := now\<rparr>
        in case get_current_proxy r' of
             Inl e \<Rightarrow> Inl e
           | Inr p \<Rightarrow> Inr (p, r'))"

text \<open>
  \<open>rotate_if_needed t_check t_rotate\<close>: \<open>t_check\<close> is the clock reading that gives the
  elapsed time, \<open>t_rotate\<close> the one \<open>rotate\<close> stores when the rotation happens.
\<close>

definition rotate_if_needed ::
  "real \<Rightarrow> real \<Rightarrow> ProxyRotator \<Rightarrow> py_error + (bool \<times> ProxyRotator)" where
  "rotate_if_needed t_check t_rotate r =
     (case get_current_proxy r of
        Inl e \<Rightarrow> Inl e
      | Inr current_proxy \<Rightarrow>
          let elapsed_time = t_check - last_rotation_time r
          in if elapsed_time \<ge> real_of_int (rotation_interval current_proxy)
             then (case rotate t_rotate r of
                     Inl e \<Rightarrow> Inl e
                   | Inr (_, r') \<Rightarrow> Inr (True, r'))
             else Inr (False, r))"

definition get_proxy_url :: "ProxyRotator \<Rightarrow> py_error + string" where
  "get_proxy_url r =
     (case get_current_proxy r of
        Inl e \<Rightarrow> Inl e
      | Inr p \<Rightarrow> Inr (''http://'' @ username p @ '':'' @ password p @ ''@'' @ host p @ '':''
                        @ str_int (port p)))"

text \<open>The pool's invariant: the current index points into the pool.\<close>

definition rotator_ok :: "ProxyRotator \<Rightarrow> bool" where
  "rotator_ok r = (current_index r < length (proxies r))"

text \<open>The successor of the current index in cyclic order.\<close>

definition next_index :: "ProxyRotator \<Rightarrow> nat" where
  "next_index r = (if current_index r + 1 = length (proxies r) then 0 else current_index r + 1)"

section \<open>Browser fingerprints (class FingerPrintGenerator)\<close>

definition CHROME_VERSIONS :: "string list" where
  "CHROME_VERSIONS =
     [''112.0.5615.49'', ''112.0.5615.121'', ''112.0.5615.138'',
      ''113.0.5672.63'', ''113.0.5672.92'', ''113.0.5672.127'',
      ''114.0.5735.90'', ''114.0.5735.106'', ''114.0.5735.133'',
      ''115.0.5790.102'', ''115.0.5790.171'']"

definition USER_AGENTS :: "string list" where
  "USER_AGENTS =
     [''Mozilla/5.0 (Windows NT 10.0; Win64; x64) AppleWebKit/537.36 (KHTML, like Gecko) Chrome/{version} Safari/537.36'',
      ''Mozilla/5.0 (Macintosh; Intel Mac OS X 10_15_7) AppleWebKit/537.36 (KHTML, like Gecko) Chrome/{version} Safari/537.36'',
      ''Mozilla/5.0 (X11; Linux x86_64) AppleWebKit/537.36 (KHTML, like Gecko) Chrome/{version} Safari/537.36'']"

record viewport_size =
  width :: int
  height :: int

definition VIEWPORT_SIZES :: "viewport_size list" where
  "VIEWPORT_SIZES =
     [\<lparr>width = 1366, height = 768\<rparr>,
      \<lparr>width = 1440, height = 900\<rparr>,
      \<lparr>width = 1536, height = 864\<rparr>,
      \<lparr>width = 1600, height = 900\<rparr>,
      \<lparr>width = 1920, height = 1080\<rparr>,
      \<lparr>width = 2048, height = 1152\<rparr>,
      \<lparr>width = 2560, height = 1440\<rparr>]"

text \<open>The key \<open>locale\<close> of the dictionary is the field \<open>locale_fp\<close>.\<close>

record fingerprint =
  userAgent :: string
  viewport :: viewport_size
  deviceScaleFactor :: real
  hasTouch :: bool
  locale_fp :: string
  timezoneId :: string

text \<open>The six draws of one call of \<open>generate\<close>, in the order the source makes them.\<close>

record fingerprint_draws =
  draw_version :: nat
  draw_agent :: nat
  draw_viewport :: nat
  draw_scale :: nat
  draw_touch :: nat
  draw_locale :: nat

definition generate :: "fingerprint_draws \<Rightarrow> fingerprint" where
  "generate d =
     (let chrome_version = choice CHROME_VERSIONS (draw_version d);
          user_agent_template = choice USER_AGENTS (draw_agent d);
          user_agent = format_version chrome_version user_agent_template;
          viewport = choice VIEWPORT_SIZES (draw_viewport d)
      in \<lparr>userAgent = user_agent,
          viewport = viewport,
          deviceScaleFactor = choice [1, 1.25, 1.5, 2] (draw_scale d),
          hasTouch = choice [True, False] (draw_touch d),
          locale_fp = choice [''en-GB'', ''en-US''] (draw_locale d),
          timezoneId = ''Europe/London''\<rparr>)"

section \<open>Pages, selectors and text fields\<close>

text \<open>
  A text field holds its content and whether the whole content is selected. A typed
  character replaces the selection or goes to the end of the content; Backspace deletes
  the selection or the last character.
\<close>

record text_field =
  content :: string
  all_selected :: bool

definition triple_click :: "text_field \<Rightarrow> text_field" where
  "triple_click f = f\<lparr>all_selected := True\<rparr>"

definition type_char :: "char \<Rightarrow> text_field \<Rightarrow> text_field" where
  "type_char c f =
     (if all_selected f then \<lparr>content = [c], all_selected = False\<rparr>
      else \<lparr>content = content f @ [c], all_selected = False\<rparr>)"

definition press_backspace :: "text_field \<Rightarrow> text_field" where
  "press_backspace f =
     (if all_selected f then \<lparr>content = [], all_selected = False\<rparr>
      else \<lparr>content = butlast (content f), all_selected = False\<rparr>)"

text \<open>
  An element of a page: its tag, its attributes in document order, whether it is visible,
  and its text field. A page is the list of its elements in document order.
\<close>

record element =
  tag :: string
  attrs :: "(string \<times> string) list"
  visible :: bool
  field :: text_field

type_synonym page = "element list"

definition get_attribute :: "string \<Rightarrow> element \<Rightarrow> string option" where
  "get_attribute a e = map_of (attrs e) a"

text \<open>
  The selectors of the source that the model reads: \<open>#id\<close>, and a tag with attribute
  tests \<open>[a="v"]\<close> (the attribute is \<open>v\<close>) and \<open>[a*="v"]\<close> (the attribute contains \<open>v\<close>).
  In an HTML document the value of the attribute \<open>type\<close> is compared without regard to
  the case of the letters A to Z, the values of \<open>id\<close>, \<open>name\<close> and \<open>style\<close> exactly.
\<close>

datatype attr_test = Equals string string | Contains string string

datatype selector = ById string | ByTag string "attr_test list"

fun attr_holds :: "element \<Rightarrow> attr_test \<Rightarrow> bool" where
  "attr_holds e (Equals a v) =
     (case get_attribute a e of
        None \<Rightarrow> False
      | Some w \<Rightarrow> if a = ''type'' then ascii_lower w = ascii_lower v else w = v)"
| "attr_holds e (Contains a v) =
     (case get_attribute a e of None \<Rightarrow> False | Some w \<Rightarrow> contains v w)"

fun matches :: "selector \<Rightarrow> element \<Rightarrow> bool" where
  "matches (ById i) e = (get_attribute ''id'' e = Some i)"
| "matches (ByTag t tests) e = (tag e = t \<and> list_all (attr_holds e) tests)"

text \<open>\<open>page.query_selector_all(selector)\<close>: the positions of the matching elements.\<close>

definition query_selector_all :: "selector \<Rightarrow> page \<Rightarrow> nat list" where
  "query_selector_all sel pg = [i \<leftarrow> [0..<length pg]. matches sel (pg ! i)]"

text \<open>
  \<open>page.wait_for_selector(selector)\<close> with the default state: the first matching
  element once it is visible; the wait raises when there is none.
\<close>

definition wait_for_selector :: "selector \<Rightarrow> page \<Rightarrow> py_error + nat option" where
  "wait_for_selector sel pg =
     (case query_selector_all sel pg of
        [] \<Rightarrow> Inl PlaywrightError
      | i # _ \<Rightarrow> if visible (pg ! i) then Inr (Some i) else Inl PlaywrightError)"

section \<open>Honeypot scan (class HoneypotDetector)\<close>

definition honeypot_selectors :: "selector list" where
  "honeypot_selectors =
     [ByTag ''input'' [Equals ''type'' ''text'', Contains ''style'' ''display: none''],
      ByTag ''input'' [Equals ''type'' ''text'', Contains ''style'' ''visibility: hidden''],
      ByTag ''input'' [Contains ''style'' ''opacity: 0''],
      ByTag ''input'' [Contains ''name'' ''hp''],
      ByTag ''input'' [Contains ''name'' ''honey''],
      ByTag ''input'' [Contains ''name'' ''pot''],
      ByTag ''input'' [Contains ''name'' ''bot''],
      ByTag ''input'' [Contains ''style'' ''position: absolute'', Contains ''style'' ''left: -''],
      ByTag ''input'' [Contains ''style'' ''position: absolute'', Contains ''style'' ''top: -'']]"

text \<open>\<open>name_attr or id_attr or 'unnamed'\<close>: the first of the three that is not empty.\<close>

definition honeypot_label :: "element \<Rightarrow> string" where
  "honeypot_label e =
     (case get_attribute ''name'' e of
        Some (c # cs) \<Rightarrow> c # cs
      | _ \<Rightarrow> (case get_attribute ''id'' e of
                Some (c # cs) \<Rightarrow> c # cs
              | _ \<Rightarrow> ''unnamed''))"

text \<open>
  \<open>identify_and_avoid_honeypots\<close> writes to the log and returns nothing: its result here
  is the list of the lines it logs. It changes neither the page nor the booker.
\<close>

definition honeypot_lines :: "element \<Rightarrow> string list" where
  "honeypot_lines e =
     (''Potential honeypot detected: '' @ honeypot_label e)
     # (if \<not> visible e then [''Leaving honeypot field empty: '' @ honeypot_label e] else [])"

definition identify_and_avoid_honeypots :: "page \<Rightarrow> string list" where
  "identify_and_avoid_honeypots pg =
     concat (map (\<lambda>selector.
                    concat (map (\<lambda>i. honeypot_lines (pg ! i)) (query_selector_all selector pg)))
                 honeypot_selectors)"

text \<open>The fields the honeypot selectors match.\<close>

definition is_honeypot :: "element \<Rightarrow> bool" where
  "is_honeypot e = list_ex (\<lambda>selector. matches selector e) honeypot_selectors"

section \<open>Typing (DrivingTestBooker.type\_like\_human)\<close>

text \<open>
  The draws for one character of the text: \<open>random.random()\<close> for the mistake, the index
  \<open>random.choice\<close> draws for the wrong character, \<open>random.random()\<close> for the pause. The
  delays change no state and are left out.
\<close>

record key_draws =
  draw_mistake :: real
  draw_wrong :: nat
  draw_pause :: real

definition wrong_chars :: string where
  "wrong_chars = ''abcdefghijklmnopqrstuvwxyz0123456789''"

text \<open>The loop over the characters; \<open>i\<close> counts the characters typed so far.\<close>

fun type_chars :: "(nat \<Rightarrow> key_draws) \<Rightarrow> nat \<Rightarrow> string \<Rightarrow> text_field \<Rightarrow> text_field" where
  "type_chars rng i [] f = f"
| "type_chars rng i (c # cs) f =
     (let f1 = (if draw_mistake (rng i) < 0.03
                then press_backspace (type_char (choice wrong_chars (draw_wrong (rng i))) f)
                else f)
      in type_chars rng (i + 1) cs (type_char c f1))"

definition type_like_human ::
  "(nat \<Rightarrow> key_draws) \<Rightarrow> selector \<Rightarrow> string \<Rightarrow> page \<Rightarrow> py_error + (bool \<times> page)" where
  "type_like_human rng sel text pg =
     (case wait_for_selector sel pg of
        Inl e \<Rightarrow> Inl e
      | Inr None \<Rightarrow> Inr (False, pg)
      | Inr (Some i) \<Rightarrow>
          let cleared = press_backspace (triple_click (field (pg ! i)))
          in Inr (True, pg[i := (pg ! i)\<lparr>field := type_chars rng 0 text cleared\<rparr>]))"

text \<open>
  The part of \<open>login\<close> that fills the form: the honeypot scan, then the two fields. The
  two calls of \<open>type_like_human\<close> draw from \<open>rng1\<close> and \<open>rng2\<close>.
\<close>

definition login_fill_form ::
  "(nat \<Rightarrow> key_draws) \<Rightarrow> (nat \<Rightarrow> key_draws) \<Rightarrow> Credentials \<Rightarrow> page \<Rightarrow> py_error + page" where
  "login_fill_form rng1 rng2 cred pg =
     (let logged = identify_and_avoid_honeypots pg
      in case type_like_human rng1 (ById ''driving-licence-number'') (license_number cred) pg of
           Inl e \<Rightarrow> Inl e
         | Inr (_, pg1) \<Rightarrow>
             (case type_like_human rng2 (ById ''application-reference-number'')
                     (application_reference cred) pg1 of
                Inl e \<Rightarrow> Inl e
              | Inr (_, pg2) \<Rightarrow> Inr pg2))"

section \<open>The session (DrivingTestBooker.setup\_browser, restart\_session)\<close>

text \<open>
  The booker's state: the rotator, whether each of the three handles is set (not
  \<open>None\<close>), and the login flag.
\<close>

record booker =
  proxy_rotator :: ProxyRotator
  browser_h :: bool
  context_h :: bool
  page_h :: bool
  logged_in :: bool

text \<open>The calls a session makes on the browser, in the order it makes them.\<close>

datatype event =
    ClosePage | CloseContext | CloseBrowser
  | StartPlaywright | LaunchBrowser string | NewContext fingerprint | InstallListeners
  | ContextInitScript | NewPage | PageInitScript


text \<open>The step of \<open>setup_browser\<close> that raises, when one does.\<close>

datatype setup_step = AtStart | AtLaunch | AtNewContext | AtContextScript | AtNewPage | AtPageScript

text \<open>
  What the browser answers during one restart: whether each \<open>close()\<close> returns, which
  step of the set-up raises, and the draws of the fingerprint.
\<close>

record session_env =
  close_page_ok :: bool
  close_context_ok :: bool
  close_browser_ok :: bool
  setup_raises :: "setup_step option"
  draws :: fingerprint_draws

text \<open>
  The result of a stateful call that may raise: the exception if any, the state it leaves
  and the calls it made.
\<close>

type_synonym outcome = "py_error option \<times> booker \<times> event list"

definition setup_browser :: "session_env \<Rightarrow> booker \<Rightarrow> outcome" where
  "setup_browser env b =
     (if setup_raises env = Some AtStart then (Some PlaywrightError, b, [StartPlaywright])
      else
        let fp = generate (draws env)
        in case get_proxy_url (proxy_rotator b) of
             Inl e \<Rightarrow> (Some e, b, [StartPlaywright])
           | Inr proxy_url \<Rightarrow>
               let t1 = [StartPlaywright, LaunchBrowser proxy_url]
               in if setup_raises env = Some AtLaunch then (Some PlaywrightError, b, t1)
                  else
                    let b1 = b\<lparr>browser_h := True\<rparr>;
                        t2 = t1 @ [NewContext fp]
                    in if setup_raises env = Some AtNewContext then (Some PlaywrightError, b1, t2)
                       else
                         let b2 = b1\<lparr>context_h := True\<rparr>;
                             t3 = t2 @ [InstallListeners, ContextInitScript]
                         in if setup_raises env = Some AtContextScript
                            then (Some PlaywrightError, b2, t3)
                            else
                              let t4 = t3 @ [NewPage]
                              in if setup_raises env = Some AtNewPage
                                 then (Some PlaywrightError, b2, t4)
                                 else
                                   let b3 = b2\<lparr>page_h := True\<rparr>;
                                       t5 = t4 @ [PageInitScript]
                                   in if setup_raises env = Some AtPageScript
                                      then (Some PlaywrightError, b3, t5)
                                      else (None, b3, t5))"

definition restart_session :: "session_env \<Rightarrow> booker \<Rightarrow> outcome" where
  "restart_session env b =
     (let t1 = (if page_h b then [ClosePage] else [])
      in if page_h b \<and> \<not> close_page_ok env then (Some PlaywrightError, b, t1)
         else
           let t2 = t1 @ (if context_h b then [CloseContext] else [])
           in if context_h b \<and> \<not> close_context_ok env then (Some PlaywrightError, b, t2)
              else
                let t3 = t2 @ (if browser_h b then [CloseBrowser] else [])
                in if browser_h b \<and> \<not> close_browser_ok env then (Some PlaywrightError, b, t3)
                   else
                     (case setup_browser env (b\<lparr>logged_in := False\<rparr>) of
                        (err, b', t4) \<Rightarrow> (err, b', t3 @ t4)))"




section \<open>The response listener (DrivingTestBooker.handle\_response)\<close>

record response =
  url :: string
  status :: int

definition handle_response ::
  "real \<Rightarrow> real \<Rightarrow> session_env \<Rightarrow> response \<Rightarrow> booker \<Rightarrow> outcome" where
  "handle_response t_check t_rotate env resp b =
     (if contains ''api'' (url resp) \<or> contains ''ajax'' (url resp) then
        (if status resp = 403 \<or> status resp = 429 then
           (case rotate_if_needed t_check t_rotate (proxy_rotator b) of
              Inl e \<Rightarrow> (Some e, b, [])
            | Inr (rotated, r') \<Rightarrow>
                if rotated then restart_session env (b\<lparr>proxy_rotator := r'\<rparr>)
                else (None, b\<lparr>proxy_rotator := r'\<rparr>, []))
         else (None, b, []))
      else (None, b, []))"

section \<open>Dates and the library functions the scan calls\<close>

text \<open>\<open>datetime.weekday()\<close>, by the proleptic Gregorian ordinal: Monday is 0, Sunday is 6.\<close>

definition is_leap :: "int \<Rightarrow> bool" where
  "is_leap y = (y mod 4 = 0 \<and> (y mod 100 \<noteq> 0 \<or> y mod 400 = 0))"

definition days_before_year :: "int \<Rightarrow> int" where
  "days_before_year y = (y - 1) * 365 + (y - 1) div 4 - (y - 1) div 100 + (y - 1) div 400"

definition days_in_month :: "int \<Rightarrow> int \<Rightarrow> int" where
  "days_in_month y m =
     (if m = 2 then (if is_leap y then 29 else 28)
      else if m = 4 \<or> m = 6 \<or> m = 9 \<or> m = 11 then 30 else 31)"

definition days_before_month :: "int \<Rightarrow> int \<Rightarrow> int" where
  "days_before_month y m = (\<Sum>k \<leftarrow> [1..<nat m]. days_in_month y (int k))"

definition toordinal :: "datetime \<Rightarrow> int" where
  "toordinal d = days_before_year (year d) + days_before_month (year d) (month d) + day d"

definition weekday :: "datetime \<Rightarrow> int" where
  "weekday d = (toordinal d + 6) mod 7"

text \<open>The order of two datetimes at midnight.\<close>

definition dt_less :: "datetime \<Rightarrow> datetime \<Rightarrow> bool" where
  "dt_less a b = ((year a, month a, day a) < (year b, month b, day b))"

text \<open>
  The two library functions that read text are parameters of the scan:
  \<open>strptime s\<close> is \<open>datetime.strptime(s, "%Y-%m-%d")\<close> and \<open>int_of s\<close> is \<open>int(s)\<close>,
  each \<open>None\<close> where the library raises \<open>ValueError\<close>.
\<close>

record pylib =
  strptime :: "string \<Rightarrow> datetime option"
  int_of :: "string \<Rightarrow> int option"

text \<open>
  The library itself, on texts of code points below 256. \<open>int\<close> takes white space
  around an optional sign and decimal digits, with single underscores between digits.
  \<open>strptime\<close> takes a year of four digits, a month and a day of one or two digits (the
  day also as a space and one digit) that name a day of the calendar, and nothing else.
\<close>

definition digit_of :: "char \<Rightarrow> nat option" where
  "digit_of c =
     (let n = (of_char c :: nat) in if 48 \<le> n \<and> n \<le> 57 then Some (n - 48) else None)"

fun nat_of_digits :: "nat \<Rightarrow> string \<Rightarrow> nat option" where
  "nat_of_digits acc [] = Some acc"
| "nat_of_digits acc (c # cs) =
     (case digit_of c of None \<Rightarrow> None | Some d \<Rightarrow> nat_of_digits (10 * acc + d) cs)"

definition py_nat :: "string \<Rightarrow> nat option" where
  "py_nat s = (if s = [] then None else nat_of_digits 0 s)"

definition is_space :: "char \<Rightarrow> bool" where
  "is_space c =
     (let n = (of_char c :: nat)
      in (9 \<le> n \<and> n \<le> 13) \<or> (28 \<le> n \<and> n \<le> 32) \<or> n = 133 \<or> n = 160)"

definition strip :: "string \<Rightarrow> string" where
  "strip s = rev (dropWhile is_space (rev (dropWhile is_space s)))"

text \<open>Digits in groups that single underscores separate: no group is empty.\<close>

definition py_nat_underscored :: "string \<Rightarrow> nat option" where
  "py_nat_underscored s =
     (let groups = split (CHR ''_'') s
      in if list_ex (\<lambda>g. g = []) groups then None else nat_of_digits 0 (concat groups))"

definition py_int :: "string \<Rightarrow> int option" where
  "py_int s =
     (case strip s of
        [] \<Rightarrow> None
      | c # cs \<Rightarrow>
          if c = CHR ''-'' then map_option (\<lambda>n. - int n) (py_nat_underscored cs)
          else if c = CHR ''+'' then map_option int (py_nat_underscored cs)
          else map_option int (py_nat_underscored (c # cs)))"

text \<open>The day of \<open>%d\<close>: one or two digits, or a space and a digit.\<close>

definition py_day :: "string \<Rightarrow> nat option" where
  "py_day ds =
     (case ds of
        [a, b] \<Rightarrow> if a = CHR '' '' then py_nat [b] else py_nat ds
      | [a] \<Rightarrow> py_nat ds
      | _ \<Rightarrow> None)"

definition py_strptime :: "string \<Rightarrow> datetime option" where
  "py_strptime s =
     (case split (CHR ''-'') s of
        [ys, ms, ds] \<Rightarrow>
          (case (py_nat ys, py_nat ms, py_day ds) of
             (Some y, Some m, Some d) \<Rightarrow>
               if length ys = 4 \<and> 1 \<le> y \<and> 1 \<le> length ms \<and> length ms \<le> 2 \<and> 1 \<le> m \<and> m \<le> 12
                  \<and> 1 \<le> d \<and> int d \<le> days_in_month (int y) (int m)
               then Some \<lparr>year = int y, month = int m, day = int d\<rparr>
               else None
           | _ \<Rightarrow> None)
      | _ \<Rightarrow> None)"

definition python :: pylib where
  "python = \<lparr>strptime = py_strptime, int_of = py_int\<rparr>"

text \<open>
  \<open>hour, minute = map(int, s.split(":"))\<close>: \<open>None\<close> where the unpacking or \<open>int\<close> raises
  \<open>ValueError\<close>.
\<close>

definition parse_hm :: "pylib \<Rightarrow> string \<Rightarrow> (int \<times> int) option" where
  "parse_hm lib s =
     (case split (CHR '':'') s of
        [a, b] \<Rightarrow>
          (case int_of lib a of
             None \<Rightarrow> None
           | Some hour \<Rightarrow>
               (case int_of lib b of None \<Rightarrow> None | Some minute \<Rightarrow> Some (hour, minute)))
      | _ \<Rightarrow> None)"

section \<open>The slot scan (DrivingTestBooker.check\_available\_slots)\<close>

text \<open>A slot is the dictionary the scan builds, with its four keys.\<close>

record slot =
  test_center :: string
  date :: string
  time :: string
  element_selector :: string

text \<open>
  What the scan finds for one calendar entry that is not disabled: its \<open>data-date\<close>
  attribute, whether the click on it returns (it may raise), and its time entries:
  \<open>None\<close> when \<open>.SlotPicker-timeSlots\<close> does not show within the five seconds, else the
  \<open>data-time\<close> attribute of each entry.
\<close>

record day_entry =
  data_date :: "string option"
  click_returns :: bool
  time_entries :: "string option list option"

text \<open>
  What the scan finds for one test centre: the result of \<open>search_test_center\<close>, the
  entries of \<open>.SlotPicker-days\<close> (\<open>None\<close> when the wait for it raises), and whether the
  screenshot of the exception handler returns.
\<close>

record scan_page =
  search_found :: bool
  picker_days :: "day_entry list option"
  scan_shot_returns :: bool

definition selector_of :: "string \<Rightarrow> string \<Rightarrow> string" where
  "selector_of date_str time_str =
     ''.SlotPicker-day[data-date='' @ [CHR 0x27] @ date_str @ [CHR 0x27]
     @ ''] + .SlotPicker-day-panel .SlotPicker-time[data-time='' @ [CHR 0x27] @ time_str
     @ [CHR 0x27] @ '']''"

text \<open>The loop over the time entries of one date; \<open>Inl\<close> is an exception that leaves it.\<close>

fun scan_times ::
  "pylib \<Rightarrow> Config \<Rightarrow> TestCenter \<Rightarrow> string \<Rightarrow> string option list \<Rightarrow> py_error + slot list" where
  "scan_times lib cfg tc date_str [] = Inr []"
| "scan_times lib cfg tc date_str (t # ts) =
     (case t of
        None \<Rightarrow> scan_times lib cfg tc date_str ts
      | Some time_str \<Rightarrow>
          if time_str = [] then scan_times lib cfg tc date_str ts
          else
            (case parse_hm lib time_str of
               None \<Rightarrow> Inl ValueError
             | Some (hour, minute) \<Rightarrow>
            (case parse_hm lib (earliest (time_preference cfg)) of
               None \<Rightarrow> Inl ValueError
             | Some (earliest_hour, earliest_minute) \<Rightarrow>
            (case parse_hm lib (latest (time_preference cfg)) of
               None \<Rightarrow> Inl ValueError
             | Some (latest_hour, latest_minute) \<Rightarrow>
                 let time_value = hour * 60 + minute;
                     earliest_value = earliest_hour * 60 + earliest_minute;
                     latest_value = latest_hour * 60 + latest_minute
                 in (case scan_times lib cfg tc date_str ts of
                       Inl e \<Rightarrow> Inl e
                     | Inr rest \<Rightarrow>
                         if earliest_value \<le> time_value \<and> time_value \<le> latest_value
                         then Inr (\<lparr>test_center = name tc, date = date_str, time = time_str,
                                    element_selector = selector_of date_str time_str\<rparr> # rest)
                         else Inr rest)))))"

text \<open>The loop over the calendar entries.\<close>

fun scan_days :: "pylib \<Rightarrow> Config \<Rightarrow> TestCenter \<Rightarrow> day_entry list \<Rightarrow> py_error + slot list" where
  "scan_days lib cfg tc [] = Inr []"
| "scan_days lib cfg tc (d # ds) =
     (case data_date d of
        None \<Rightarrow> scan_days lib cfg tc ds
      | Some date_str \<Rightarrow>
          if date_str = [] then scan_days lib cfg tc ds
          else
            (case strptime lib date_str of
               None \<Rightarrow> scan_days lib cfg tc ds
             | Some slot_date \<Rightarrow>
                 if dt_less slot_date (start_date (date_range cfg))
                    \<or> dt_less (end_date (date_range cfg)) slot_date
                 then scan_days lib cfg tc ds
                 else if weekday slot_date \<notin> preferred_days cfg then scan_days lib cfg tc ds
                 else if \<not> click_returns d then Inl PlaywrightError
                 else
                   (case time_entries d of
                      None \<Rightarrow> scan_days lib cfg tc ds
                    | Some ts \<Rightarrow>
                        (case scan_times lib cfg tc date_str ts of
                           Inl e \<Rightarrow> Inl e
                         | Inr here \<Rightarrow>
                             (case scan_days lib cfg tc ds of
                                Inl e \<Rightarrow> Inl e
                              | Inr rest \<Rightarrow> Inr (here @ rest))))))"

text \<open>
  \<open>check_available_slots\<close>: an exception of the scan ends in the handler, which takes a
  screenshot and returns the empty list; only an exception of that screenshot leaves the
  function.
\<close>

definition check_available_slots ::
  "pylib \<Rightarrow> Config \<Rightarrow> TestCenter \<Rightarrow> scan_page \<Rightarrow> py_error + slot list" where
  "check_available_slots lib cfg tc pg =
     (if \<not> search_found pg then Inr []
      else
        (case (case picker_days pg of
                 None \<Rightarrow> Inl PlaywrightError
               | Some ds \<Rightarrow> scan_days lib cfg tc ds) of
           Inr available_slots \<Rightarrow> Inr available_slots
         | Inl e \<Rightarrow> if scan_shot_returns pg then Inr [] else Inl PlaywrightError))"

text \<open>The three filters on a slot, read from its two texts.\<close>

definition date_in_range :: "pylib \<Rightarrow> Config \<Rightarrow> slot \<Rightarrow> bool" where
  "date_in_range lib cfg s =
     (case strptime lib (date s) of
        None \<Rightarrow> False
      | Some d \<Rightarrow> \<not> dt_less d (start_date (date_range cfg))
                  \<and> \<not> dt_less (end_date (date_range cfg)) d)"

definition weekday_allowed :: "pylib \<Rightarrow> Config \<Rightarrow> slot \<Rightarrow> bool" where
  "weekday_allowed lib cfg s =
     (case strptime lib (date s) of
        None \<Rightarrow> False
      | Some d \<Rightarrow> weekday d \<in> preferred_days cfg)"

definition minutes_of :: "pylib \<Rightarrow> string \<Rightarrow> int option" where
  "minutes_of lib s = map_option (\<lambda>(h, m). h * 60 + m) (parse_hm lib s)"

definition time_in_window :: "pylib \<Rightarrow> Config \<Rightarrow> slot \<Rightarrow> bool" where
  "time_in_window lib cfg s =
     (case (minutes_of lib (time s), minutes_of lib (earliest (time_preference cfg)),
            minutes_of lib (latest (time_preference cfg))) of
        (Some t, Some lo, Some hi) \<Rightarrow> lo \<le> t \<and> t \<le> hi
      | _ \<Rightarrow> False)"

section \<open>Booking a slot (DrivingTestBooker.book\_slot)\<close>

text \<open>
  \<open>realistic_click\<close> returns True after the click, returns False when the element has no
  bounding box, or raises.
\<close>

datatype click = Clicked | NotClicked | ClickRaised

text \<open>
  What the site answers to one booking: the three clicks, the confirmation surface
  (\<open>None\<close> when \<open>.confirmation-block\<close> does not show within the ten seconds, else what
  \<open>text_content\<close> returns, which may be Python's \<open>None\<close>), and whether the screenshot
  after the confirmation and the one of the exception handler return.
\<close>

record claim_page =
  slot_click :: click
  next_click :: click
  confirm_click :: click
  confirmation :: "string option option"
  confirm_shot_returns :: bool
  error_shot_returns :: bool

text \<open>A call of \<open>notifier.notify_success\<close> with its three arguments.\<close>

datatype notification = NotifySuccess string string string

definition success_keyword :: "string \<Rightarrow> bool" where
  "success_keyword confirmation_text =
     (contains ''confirmed'' (lower confirmation_text)
      \<or> contains ''booked'' (lower confirmation_text))"

text \<open>
  The result of \<open>book_slot\<close>: what it returns or raises, and the notifications it
  dispatched.
\<close>

definition book_slot :: "slot \<Rightarrow> claim_page \<Rightarrow> (py_error + bool) \<times> notification list" where
  "book_slot s pg =
     (if slot_click pg = ClickRaised \<or> next_click pg = ClickRaised
         \<or> confirm_click pg = ClickRaised
      then (if error_shot_returns pg then (Inr False, []) else (Inl PlaywrightError, []))
      else
        (case confirmation pg of
           None \<Rightarrow> (Inr False, [])
         | Some None \<Rightarrow> (Inr False, [])
         | Some (Some confirmation_text) \<Rightarrow>
             if success_keyword confirmation_text
             then
               (let sent = [NotifySuccess (test_center s) (date s) (time s)]
                in if confirm_shot_returns pg then (Inr True, sent) else (Inr False, sent))
             else (Inr False, [])))"

section \<open>The monitoring cycle (DrivingTestBooker.run\_monitoring\_cycle)\<close>













section \<open>Concrete inputs\<close>

subsection \<open>A pool of two proxies\<close>

definition example_pool :: "ProxyConfig list" where
  "example_pool =
     [\<lparr>host = ''p0'', port = 8080, username = ''u'', password = ''w'', rotation_interval = 300\<rparr>,
      \<lparr>host = ''p1'', port = 8080, username = ''u'', password = ''w'', rotation_interval = 60\<rparr>]"

definition example_rotator :: ProxyRotator where
  "example_rotator = \<lparr>proxies = example_pool, current_index = 1, last_rotation_time = 1000\<rparr>"

subsection \<open>Two draws of the fingerprint that differ in the locale only\<close>

definition draws_gb :: fingerprint_draws where
  "draws_gb = \<lparr>draw_version = 0, draw_agent = 0, draw_viewport = 0, draw_scale = 0,
                draw_touch = 0, draw_locale = 0\<rparr>"

definition draws_us :: fingerprint_draws where
  "draws_us = draws_gb\<lparr>draw_locale := 1\<rparr>"

subsection \<open>A field with old content, and draws that make a mistake at every character\<close>

definition licence_field :: element where
  "licence_field =
     \<lparr>tag = ''input'',
      attrs = [(''id'', ''driving-licence-number''), (''name'', ''driving-licence-number''),
               (''type'', ''text'')],
      visible = True,
      field = \<lparr>content = ''old'', all_selected = False\<rparr>\<rparr>"

definition always_mistaken :: "nat \<Rightarrow> key_draws" where
  "always_mistaken i = \<lparr>draw_mistake = 0.01, draw_wrong = i, draw_pause = 0.5\<rparr>"

subsection \<open>A logged-in booker with an open session, and a browser that answers every call\<close>

definition open_booker :: booker where
  "open_booker =
     \<lparr>proxy_rotator = example_rotator, browser_h = True, context_h = True, page_h = True,
      logged_in = True\<rparr>"

definition calm_env :: session_env where
  "calm_env =
     \<lparr>close_page_ok = True, close_context_ok = True, close_browser_ok = True,
      setup_raises = None, draws = draws_gb\<rparr>"


text \<open>A rate-limited answer of an API address, and one of the login page.\<close>

definition api_429 :: response where
  "api_429 = \<lparr>url = ''https://driverpracticaltest.dvsa.gov.uk/api/slots'', status = 429\<rparr>"

definition login_429 :: response where
  "login_429 = \<lparr>url = ''https://driverpracticaltest.dvsa.gov.uk/login'', status = 429\<rparr>"

subsection \<open>A login page whose licence field has a name with a bait token\<close>

definition bait_named_field :: element where
  "bait_named_field =
     \<lparr>tag = ''input'',
      attrs = [(''id'', ''driving-licence-number''), (''name'', ''licence-both-parts''),
               (''type'', ''text'')],
      visible = True,
      field = \<lparr>content = [], all_selected = False\<rparr>\<rparr>"

definition reference_field :: element where
  "reference_field =
     \<lparr>tag = ''input'',
      attrs = [(''id'', ''application-reference-number''),
               (''name'', ''application-reference-number''), (''type'', ''text'')],
      visible = True,
      field = \<lparr>content = [], all_selected = False\<rparr>\<rparr>"

definition bait_login_page :: page where
  "bait_login_page = [bait_named_field, reference_field]"

definition never_mistaken :: "nat \<Rightarrow> key_draws" where
  "never_mistaken i = \<lparr>draw_mistake = 0.5, draw_wrong = 0, draw_pause = 0.5\<rparr>"

definition example_credentials :: Credentials where
  "example_credentials =
     \<lparr>license_number = ''SMITH801'', application_reference = ''12345678''\<rparr>"

subsection \<open>The scenario of two test centres\<close>

text \<open>
  June 2024, Mondays and Wednesdays, 09:00 to 12:00. Centre A shows 2024-06-03 (a Monday)
  at 08:30 and 10:00, 2024-06-04 (a Tuesday), 2024-06-05 (a Wednesday) at 09:30 and
  2024-07-01 (a Monday); centre B shows 2024-06-03 at 09:00.
\<close>

definition centre_A :: TestCenter where
  "centre_A = \<lparr>center_id = ''1'', name = ''A'', distance = None\<rparr>"

definition centre_B :: TestCenter where
  "centre_B = \<lparr>center_id = ''2'', name = ''B'', distance = None\<rparr>"

definition scenario_config :: Config where
  "scenario_config =
     \<lparr>credentials = example_credentials,
      test_centers = [centre_A, centre_B],
      date_range = \<lparr>start_date = \<lparr>year = 2024, month = 6, day = 1\<rparr>,
                     end_date = \<lparr>year = 2024, month = 6, day = 30\<rparr>\<rparr>,
      time_preference = \<lparr>earliest = ''09:00'', latest = ''12:00''\<rparr>,
      preferred_days = {0, 2},
      proxies_cfg = example_pool,
      check_interval = (30, 60)\<rparr>"

definition shown_day :: "string \<Rightarrow> string list \<Rightarrow> day_entry" where
  "shown_day d ts = \<lparr>data_date = Some d, click_returns = True, time_entries = Some (map Some ts)\<rparr>"

definition page_A :: scan_page where
  "page_A =
     \<lparr>search_found = True,
      picker_days = Some [shown_day ''2024-06-03'' [''08:30'', ''10:00''],
                          shown_day ''2024-06-04'' [''10:00''],
                          shown_day ''2024-06-05'' [''09:30''],
                          shown_day ''2024-07-01'' [''10:00'']],
      scan_shot_returns = True\<rparr>"


definition slot_of :: "string \<Rightarrow> string \<Rightarrow> string \<Rightarrow> slot" where
  "slot_of c d t =
     \<lparr>test_center = c, date = d, time = t, element_selector = selector_of d t\<rparr>"

text \<open>A site that confirms every booking, and one whose confirmation never shows.\<close>

definition confirming :: claim_page where
  "confirming =
     \<lparr>slot_click = Clicked, next_click = Clicked, confirm_click = Clicked,
      confirmation = Some (Some ''Your test is BOOKED''),
      confirm_shot_returns = True, error_shot_returns = True\<rparr>"

definition silent :: claim_page where
  "silent = confirming\<lparr>confirmation := None\<rparr>"






section \<open>Properties of the proxy rotation\<close>

lemma rotator_ok_init: "ps \<noteq> [] \<Longrightarrow> rotator_ok (init_rotator now ps)"
  by (simp add: rotator_ok_def init_rotator_def)


text \<open>What \<open>rotate_if_needed\<close> returns in a valid pool, by the two cases of its test.\<close>

lemma rotate_if_needed_cases:
  assumes "rotator_ok r"
  shows "(if t_check - last_rotation_time r
              < real_of_int (rotation_interval (proxies r ! current_index r))
          then rotate_if_needed t_check t_rotate r = Inr (False, r)
          else rotate_if_needed t_check t_rotate r =
                 Inr (True, r\<lparr>current_index := next_index r, last_rotation_time := t_rotate\<rparr>))"
proof -
  from assms have lt: "current_index r < length (proxies r)"
    by (simp add: rotator_ok_def)
  have wrap: "(current_index r + 1) mod length (proxies r) = next_index r"
    using lt by (simp add: next_index_def mod_Suc)
  from lt have cur: "get_current_proxy r = Inr (proxies r ! current_index r)"
    by (simp add: get_current_proxy_def)
  have nxt: "next_index r < length (proxies r)"
    using lt by (auto simp: next_index_def)
  from lt have ne: "proxies r \<noteq> []"
    by auto
  show ?thesis
    using lt nxt wrap ne
    by (simp add: rotate_if_needed_def cur rotate_def get_current_proxy_def Let_def not_less)
qed

text \<open>
  C5. In a pool whose current index is valid, \<open>rotate_if_needed\<close> returns False and changes
  nothing while the elapsed time is below the current proxy's interval; otherwise it moves
  the index to the next proxy, from the last one back to the first, stores the new clock
  reading and returns True.
\<close>

theorem rotate_if_needed_spec:
  assumes "rotator_ok r"
  shows "(if t_check - last_rotation_time r
              < real_of_int (rotation_interval (proxies r ! current_index r))
          then rotate_if_needed t_check t_rotate r = Inr (False, r)
          else rotate_if_needed t_check t_rotate r =
                 Inr (True, r\<lparr>current_index := next_index r, last_rotation_time := t_rotate\<rparr>))"
  using assms by (rule rotate_if_needed_cases)

theorem rotate_if_needed_spec_witness:
  "rotator_ok example_rotator
   \<and> rotate_if_needed 1059 1059.5 example_rotator = Inr (False, example_rotator)
   \<and> rotate_if_needed 1060 1060.5 example_rotator =
       Inr (True, example_rotator\<lparr>current_index := 0, last_rotation_time := 1060.5\<rparr>)"
proof -
  have ok: "rotator_ok example_rotator"
    by (simp add: rotator_ok_def example_rotator_def example_pool_def)
  have n: "next_index example_rotator = 0"
    by (simp add: next_index_def example_rotator_def example_pool_def)
  have a: "rotate_if_needed 1059 1059.5 example_rotator = Inr (False, example_rotator)"
    using rotate_if_needed_spec [OF ok, of 1059 "1059.5"]
    by (simp add: example_rotator_def example_pool_def)
  have b: "rotate_if_needed 1060 1060.5 example_rotator =
       Inr (True, example_rotator\<lparr>current_index := 0, last_rotation_time := 1060.5\<rparr>)"
    using rotate_if_needed_spec [OF ok, of 1060 "1060.5"] n
    by (simp add: example_rotator_def example_pool_def)
  from ok a b show ?thesis by simp
qed

section \<open>Properties of the fingerprint generator\<close>

lemma choice_in_set: "seq \<noteq> [] \<Longrightarrow> choice seq k \<in> set seq"
  by (simp add: choice_def)

lemma choice_pair: "choice [a, b] k = a \<or> choice [a, b] k = b"
  using choice_in_set [of "[a, b]" k] by auto

text \<open>
  C8, as stated, fails: the locale is not one fixed value. Two calls of \<open>generate\<close> whose
  draws differ in the locale draw only return the locales \<open>en-GB\<close> and \<open>en-US\<close>.
\<close>

theorem generate_locale_counterexample:
  "locale_fp (generate draws_gb) = ''en-GB'' \<and> locale_fp (generate draws_us) = ''en-US''
   \<and> locale_fp (generate draws_gb) \<noteq> locale_fp (generate draws_us)"
  by (simp add: generate_def choice_def draws_gb_def draws_us_def Let_def)

text \<open>
  C8, amended. Whatever the draws, the generated profile has the timezone
  \<open>Europe/London\<close>, and its locale is one of \<open>en-GB\<close> and \<open>en-US\<close>.
\<close>

theorem generate_locale_timezone:
  "timezoneId (generate d) = ''Europe/London''
   \<and> (locale_fp (generate d) = ''en-GB'' \<or> locale_fp (generate d) = ''en-US'')"
  using choice_pair [of "''en-GB''" "''en-US''" "draw_locale d"]
  by (simp add: generate_def Let_def)

section \<open>Properties of the typing primitive\<close>

text \<open>
  On a field with no selection the loop appends the text: a wrong character goes to the
  end of the content and the Backspace that follows takes it away again.
\<close>

lemma type_chars_appends:
  "\<not> all_selected f \<Longrightarrow>
   type_chars rng i cs f = \<lparr>content = content f @ cs, all_selected = False\<rparr>"
proof (induction cs arbitrary: i f)
  case Nil
  then show ?case by simp
next
  case (Cons c cs)
  then show ?case
    by (simp add: Let_def type_char_def press_backspace_def)
qed

text \<open>
  C10. When the selector finds its field, \<open>type_like_human\<close> returns True and leaves the
  field with exactly the target text, whatever the field held before and whatever the
  random draws are; no other element of the page changes.
\<close>

theorem type_like_human_spec:
  assumes "wait_for_selector sel pg = Inr (Some i)"
  shows "type_like_human rng sel text pg =
           Inr (True, pg[i := (pg ! i)\<lparr>field := \<lparr>content = text, all_selected = False\<rparr>\<rparr>])"
  using assms
  by (simp add: type_like_human_def Let_def type_chars_appends press_backspace_def triple_click_def)

theorem type_like_human_spec_witness:
  "wait_for_selector (ById ''driving-licence-number'') [licence_field] = Inr (Some 0)
   \<and> type_like_human always_mistaken (ById ''driving-licence-number'') ''SMITH801'' [licence_field]
       = Inr (True, [licence_field\<lparr>field := \<lparr>content = ''SMITH801'', all_selected = False\<rparr>\<rparr>])"
proof -
  have w: "wait_for_selector (ById ''driving-licence-number'') [licence_field] = Inr (Some 0)"
    by (simp add: wait_for_selector_def query_selector_all_def licence_field_def get_attribute_def)
  show ?thesis
    using w type_like_human_spec [OF w, of always_mistaken "''SMITH801''"] by simp
qed

section \<open>Properties of the session restart\<close>








section \<open>Properties of the response listener\<close>

text \<open>
  C4, amended. With a valid pool, the listener restarts the session exactly when the
  response comes from an address that contains \<open>api\<close> or \<open>ajax\<close>, its status is 403
  or 429 and the elapsed time has reached the current proxy's interval: then the proxy is
  rotated and \<open>restart_session\<close> runs on the rotated booker. In every other case the
  listener changes nothing and makes no call.
\<close>

theorem handle_response_spec:
  assumes "rotator_ok (proxy_rotator b)"
  shows "handle_response t_check t_rotate env resp b =
           (if (contains ''api'' (url resp) \<or> contains ''ajax'' (url resp))
               \<and> (status resp = 403 \<or> status resp = 429)
               \<and> t_check - last_rotation_time (proxy_rotator b)
                   \<ge> real_of_int (rotation_interval
                        (proxies (proxy_rotator b) ! current_index (proxy_rotator b)))
            then restart_session env
                   (b\<lparr>proxy_rotator := (proxy_rotator b)
                        \<lparr>current_index := next_index (proxy_rotator b),
                         last_rotation_time := t_rotate\<rparr>\<rparr>)
            else (None, b, []))"
  using rotate_if_needed_cases [OF assms, of t_check t_rotate]
  by (simp add: handle_response_def not_less split: if_splits)

text \<open>
  C4, as stated, fails: a status 429 from the login address, with the rotation due, neither
  rotates the proxy nor restarts the session, because the listener only looks at
  addresses that contain \<open>api\<close> or \<open>ajax\<close>.
\<close>

theorem handle_response_counterexample:
  "status login_429 = 429
   \<and> rotate_if_needed 1060 1060.5 (proxy_rotator open_booker)
       = Inr (True, example_rotator\<lparr>current_index := 0, last_rotation_time := 1060.5\<rparr>)
   \<and> handle_response 1060 1060.5 calm_env login_429 open_booker = (None, open_booker, [])"
  by (simp add: handle_response_def login_429_def open_booker_def rotate_if_needed_def
        rotate_def get_current_proxy_def example_rotator_def example_pool_def Let_def)

theorem handle_response_spec_witness:
  "rotator_ok (proxy_rotator open_booker)
   \<and> handle_response 1059 1059.5 calm_env api_429 open_booker = (None, open_booker, [])
   \<and> handle_response 1060 1060.5 calm_env api_429 open_booker
       = restart_session calm_env
           (open_booker\<lparr>proxy_rotator :=
              example_rotator\<lparr>current_index := 0, last_rotation_time := 1060.5\<rparr>\<rparr>)"
proof -
  have ok: "rotator_ok (proxy_rotator open_booker)"
    by (simp add: open_booker_def rotator_ok_def example_rotator_def example_pool_def)
  have u: "contains ''api'' (url api_429)"
    by (simp add: api_429_def)
  have n: "next_index example_rotator = 0"
    by (simp add: next_index_def example_rotator_def example_pool_def)
  have a: "handle_response 1059 1059.5 calm_env api_429 open_booker = (None, open_booker, [])"
    using handle_response_spec [OF ok, of 1059 "1059.5" calm_env api_429] u
    by (simp add: api_429_def open_booker_def example_rotator_def example_pool_def)
  have b: "handle_response 1060 1060.5 calm_env api_429 open_booker
       = restart_session calm_env
           (open_booker\<lparr>proxy_rotator :=
              example_rotator\<lparr>current_index := 0, last_rotation_time := 1060.5\<rparr>\<rparr>)"
    using handle_response_spec [OF ok, of 1060 "1060.5" calm_env api_429] u n
    by (simp add: api_429_def open_booker_def example_rotator_def example_pool_def)
  from ok a b show ?thesis by simp
qed

section \<open>Properties of the slot scan\<close>

text \<open>The slots of one date carry that date and a time inside the window.\<close>

lemma scan_times_sound:
  "scan_times lib cfg tc d ts = Inr slots \<Longrightarrow> s \<in> set slots \<Longrightarrow>
   date s = d \<and> time_in_window lib cfg s"
proof (induction ts arbitrary: slots)
  case Nil
  then show ?case by simp
next
  case (Cons t ts)
  show ?case
  proof (cases t)
    case None
    with Cons show ?thesis by simp
  next
    case (Some time_str)
    show ?thesis
    proof (cases "time_str = []")
      case True
      with Some Cons show ?thesis by simp
    next
      case False
      from Cons.prems(1) Some False
      obtain hour minute eh em lh lm rest where
        p1: "parse_hm lib time_str = Some (hour, minute)" and
        p2: "parse_hm lib (earliest (time_preference cfg)) = Some (eh, em)" and
        p3: "parse_hm lib (latest (time_preference cfg)) = Some (lh, lm)" and
        r: "scan_times lib cfg tc d ts = Inr rest" and
        sl: "slots = (if eh * 60 + em \<le> hour * 60 + minute \<and> hour * 60 + minute \<le> lh * 60 + lm
                      then \<lparr>test_center = name tc, date = d, time = time_str,
                             element_selector = selector_of d time_str\<rparr> # rest
                      else rest)"
        by (auto simp: Let_def split: option.splits sum.splits if_splits)
      show ?thesis
      proof (cases "s \<in> set rest")
        case True
        with Cons.IH [OF r] show ?thesis by simp
      next
        case False
        with sl Cons.prems(2) have
          "s = \<lparr>test_center = name tc, date = d, time = time_str,
                element_selector = selector_of d time_str\<rparr>"
          and "eh * 60 + em \<le> hour * 60 + minute" and "hour * 60 + minute \<le> lh * 60 + lm"
          by (auto split: if_splits)
        with p1 p2 p3 show ?thesis
          by (simp add: time_in_window_def minutes_of_def)
      qed
    qed
  qed
qed

lemma scan_days_sound:
  "scan_days lib cfg tc ds = Inr slots \<Longrightarrow> s \<in> set slots \<Longrightarrow>
   date_in_range lib cfg s \<and> weekday_allowed lib cfg s \<and> time_in_window lib cfg s"
proof (induction ds arbitrary: slots)
  case Nil
  then show ?case by simp
next
  case (Cons d ds)
  show ?case
  proof (cases "scan_days lib cfg tc (d # ds) = scan_days lib cfg tc ds")
    case True
    with Cons.prems(1) have "scan_days lib cfg tc ds = Inr slots"
      by (simp only:)
    from Cons.IH [OF this Cons.prems(2)] show ?thesis .
  next
    case False
    with Cons.prems(1)
    obtain date_str slot_date ts here rest where
      dd: "data_date d = Some date_str" and
      sp: "strptime lib date_str = Some slot_date" and
      rg: "\<not> dt_less slot_date (start_date (date_range cfg))"
          "\<not> dt_less (end_date (date_range cfg)) slot_date" and
      wd: "weekday slot_date \<in> preferred_days cfg" and
      h: "scan_times lib cfg tc date_str ts = Inr here" and
      r: "scan_days lib cfg tc ds = Inr rest" and
      sl: "slots = here @ rest"
      by (auto split: option.splits sum.splits if_splits)
    show ?thesis
    proof (cases "s \<in> set rest")
      case True
      with Cons.IH [OF r] show ?thesis by simp
    next
      case False
      with sl Cons.prems(2) have "s \<in> set here" by simp
      from scan_times_sound [OF h this] sp rg wd show ?thesis
        by (simp add: date_in_range_def weekday_allowed_def)
    qed
  qed
qed

text \<open>
  C3. Every slot that \<open>check_available_slots\<close> returns passes the three filters: its
  date parses to a day that is neither before the start nor after the end of the date
  range, the weekday of that day is one of the preferred days, and its time, as minutes
  since midnight, lies between the earliest and the latest time, both ends included.
\<close>

theorem check_available_slots_filters:
  assumes "check_available_slots lib cfg tc pg = Inr slots" and "s \<in> set slots"
  shows "date_in_range lib cfg s \<and> weekday_allowed lib cfg s \<and> time_in_window lib cfg s"
proof -
  from assms obtain ds where "scan_days lib cfg tc ds = Inr slots"
    by (auto simp: check_available_slots_def split: if_splits option.splits sum.splits)
  from scan_days_sound [OF this assms(2)] show ?thesis .
qed

theorem check_available_slots_filters_witness:
  "check_available_slots python scenario_config centre_A page_A
     = Inr [slot_of ''A'' ''2024-06-03'' ''10:00'', slot_of ''A'' ''2024-06-05'' ''09:30'']
   \<and> date_in_range python scenario_config (slot_of ''A'' ''2024-06-03'' ''10:00'')
   \<and> weekday_allowed python scenario_config (slot_of ''A'' ''2024-06-03'' ''10:00'')
   \<and> time_in_window python scenario_config (slot_of ''A'' ''2024-06-03'' ''10:00'')"
proof -
  have e: "check_available_slots python scenario_config centre_A page_A
     = Inr [slot_of ''A'' ''2024-06-03'' ''10:00'', slot_of ''A'' ''2024-06-05'' ''09:30'']"
    by code_simp
  from check_available_slots_filters [OF e, of "slot_of ''A'' ''2024-06-03'' ''10:00''"] e
  show ?thesis by simp
qed

section \<open>Properties of the booking\<close>

text \<open>
  C2. \<open>book_slot\<close> returns True, or dispatches a notification, only when the
  confirmation surface showed and its text, in lower case, contains \<open>confirmed\<close> or
  \<open>booked\<close>. When the surface does not show within the wait, \<open>book_slot\<close> does not return
  True and dispatches nothing.
\<close>

theorem book_slot_confirmed_only:
  "(fst (book_slot s pg) = Inr True \<or> snd (book_slot s pg) \<noteq> []
      \<longrightarrow> (\<exists>t. confirmation pg = Some (Some t) \<and> success_keyword t))
   \<and> (confirmation pg = None
      \<longrightarrow> fst (book_slot s pg) \<noteq> Inr True \<and> snd (book_slot s pg) = [])"
  by (auto simp: book_slot_def Let_def split: if_splits option.splits)

theorem book_slot_confirmed_only_witness:
  "fst (book_slot (slot_of ''B'' ''2024-06-03'' ''09:00'') confirming) = Inr True
   \<and> (\<exists>t. confirmation confirming = Some (Some t) \<and> success_keyword t)
   \<and> confirmation silent = None
   \<and> fst (book_slot (slot_of ''B'' ''2024-06-03'' ''09:00'') silent) \<noteq> Inr True
   \<and> snd (book_slot (slot_of ''B'' ''2024-06-03'' ''09:00'') silent) = []"
proof -
  have a: "fst (book_slot (slot_of ''B'' ''2024-06-03'' ''09:00'') confirming) = Inr True"
    by code_simp
  have b: "confirmation silent = None"
    by (simp add: silent_def)
  from book_slot_confirmed_only [of "slot_of ''B'' ''2024-06-03'' ''09:00''" confirming] a
  have c: "\<exists>t. confirmation confirming = Some (Some t) \<and> success_keyword t"
    by simp
  from book_slot_confirmed_only [of "slot_of ''B'' ''2024-06-03'' ''09:00''" silent] b
  have d: "fst (book_slot (slot_of ''B'' ''2024-06-03'' ''09:00'') silent) \<noteq> Inr True
           \<and> snd (book_slot (slot_of ''B'' ''2024-06-03'' ''09:00'') silent) = []"
    by simp
  from a b c d show ?thesis by simp
qed

section \<open>Properties of the monitoring cycle\<close>
























section \<open>The honeypot scan and the typing primitive\<close>

text \<open>
  C7. On a login page whose licence field is visible and has the name
  \<open>licence-both-parts\<close>, the field matches the honeypot selector for names that contain
  \<open>bot\<close>. The scan logs it and does nothing else, and \<open>type_like_human\<close> then writes
  the licence number into it.
\<close>

theorem honeypot_field_written:
  "is_honeypot bait_named_field
   \<and> identify_and_avoid_honeypots bait_login_page
       = [''Potential honeypot detected: licence-both-parts'']
   \<and> login_fill_form never_mistaken never_mistaken example_credentials bait_login_page
       = Inr [bait_named_field\<lparr>field := \<lparr>content = ''SMITH801'', all_selected = False\<rparr>\<rparr>,
              reference_field\<lparr>field := \<lparr>content = ''12345678'', all_selected = False\<rparr>\<rparr>]"
  by code_simp


end
